theory Spec2Isabelle
  imports Complex_Main
begin

section \<open>Python values and errors\<close>

text \<open>
  The notebook \<^verbatim>\<open>master.ipynb\<close> is a straight line of ten cells. Every cell is
  embedded as a function of the values it reads; an exception that a cell can raise is the
  \<open>Inl\<close> branch of its result.
\<close>

datatype py_error = IndexError | ValueError | TypeError

definition bind_result :: "py_error + 'a \<Rightarrow> ('a \<Rightarrow> py_error + 'b) \<Rightarrow> py_error + 'b" where
  "bind_result r f = (case r of Inl e \<Rightarrow> Inl e | Inr a \<Rightarrow> f a)"

definition idx :: "'a list \<Rightarrow> nat \<Rightarrow> py_error + 'a" where
  \<comment> \<open>\<^verbatim>\<open>xs[i]\<close> for a literal index \<open>i \<ge> 0\<close>: out of range raises.\<close>
  "idx xs i = (if i < length xs then Inr (xs ! i) else Inl IndexError)"

definition idx3 :: "'a list list list \<Rightarrow> nat \<Rightarrow> nat \<Rightarrow> nat \<Rightarrow> py_error + 'a" where
  \<comment> \<open>\<^verbatim>\<open>xs[i][j][k]\<close>\<close>
  "idx3 xs i j k =
     bind_result (idx xs i) (\<lambda>ys. bind_result (idx ys j) (\<lambda>zs. idx zs k))"

section \<open>Cells 2 and 3: the data generator\<close>

text \<open>
  \<^verbatim>\<open>np.round(x, 0)\<close> rounds to the nearest integer, a tie to the even neighbour, and
  returns a float; \<^verbatim>\<open>.astype(int)\<close> truncates toward zero. A float is a rational number
  and both operations are exact on it, so samples are modelled as \<^typ>\<open>rat\<close>.
\<close>

definition np_round :: "rat \<Rightarrow> rat" where
  "np_round u =
     (let f = \<lfloor>u\<rfloor>; d = u - of_int f
      in of_int (if d < 1 / 2 then f
                 else if 1 / 2 < d then f + 1
                 else if even f then f else f + 1))"

definition astype_int :: "rat \<Rightarrow> int" where
  "astype_int u = (if 0 \<le> u then \<lfloor>u\<rfloor> else \<lceil>u\<rceil>)"

definition round_hours :: "rat \<Rightarrow> int" where
  \<comment> \<open>\<^verbatim>\<open>np.round(u, 0).astype(int)\<close> on one sample\<close>
  "round_hours u = astype_int (np_round u)"

text \<open>
  The pseudo-random generator of numpy is not part of the notebook. It is a parameter:
  a state type \<open>'g\<close>, a function \<open>seeding\<close> from a seed to the state that
  \<^verbatim>\<open>np.random.seed\<close> installs, and a function \<open>nxt\<close> that returns one sample of
  \<^verbatim>\<open>np.random.uniform(low = 1, high = 10)\<close> and the advanced state.
\<close>

definition np_random_seed :: "(nat \<Rightarrow> 'g) \<Rightarrow> nat \<Rightarrow> 'g \<Rightarrow> 'g" where
  \<comment> \<open>the process-wide generator state is overwritten\<close>
  "np_random_seed seeding seed g = seeding seed"

fun np_random_uniform :: "('g \<Rightarrow> rat \<times> 'g) \<Rightarrow> nat \<Rightarrow> 'g \<Rightarrow> rat list \<times> 'g" where
  "np_random_uniform nxt 0 g = ([], g)"
| "np_random_uniform nxt (Suc n) g =
     (let (u, g1) = nxt g; (us, g2) = np_random_uniform nxt n g1 in (u # us, g2))"

fun np_reshape_2_2 :: "'a list \<Rightarrow> py_error + 'a list list" where
  "np_reshape_2_2 [a, b, c, d] = Inr [[a, b], [c, d]]"
| "np_reshape_2_2 _ = Inl ValueError"

text \<open>
  Cell 3 also prints the table; the layout pandas gives it is not modelled.
  A data frame is the list of its rows. Both frames have the row labels Cutting, Sewing,
  so \<^verbatim>\<open>pd.concat(..., axis=1)\<close> joins the rows pairwise. The column labels are the four
  distinct pairs (site, product), in the order (Besiktas, T-shirts), (Besiktas, Jeans),
  (Davutpasa, T-shirts), (Davutpasa, Jeans), so a lookup by column label is a lookup by
  position.
\<close>

definition pd_concat_axis1 :: "'a list list \<Rightarrow> 'a list list \<Rightarrow> 'a list list" where
  "pd_concat_axis1 xs ys = map2 (@) xs ys"

definition random_hours :: "('g \<Rightarrow> rat \<times> 'g) \<Rightarrow> 'g \<Rightarrow> (py_error + int list list) \<times> 'g" where
  \<comment> \<open>\<^verbatim>\<open>np.reshape(np.round(np.random.uniform(low=1, high=10, size=4), 0).astype(int), (2,2))\<close>\<close>
  "random_hours nxt g =
     (let (us, g1) = np_random_uniform nxt 4 g
      in (np_reshape_2_2 (map round_hours us), g1))"

definition cell_3 :: "('g \<Rightarrow> rat \<times> 'g) \<Rightarrow> 'g \<Rightarrow> (py_error + int list list) \<times> 'g" where
  "cell_3 nxt g =
     (let (BesiktasHour, g1) = random_hours nxt g;
          (DavutpasaHour, g2) = random_hours nxt g1
      in (bind_result BesiktasHour (\<lambda>b.
          bind_result DavutpasaHour (\<lambda>d. Inr (pd_concat_axis1 b d))), g2))"

section \<open>Cell 4: extracting the constraints\<close>

text \<open>
  The inner loop runs over the columns with their position \<open>j\<close>. The variable
  \<^verbatim>\<open>sub_constraint\<close> is rebound to a fresh list at every even \<open>j\<close> and appended to
  \<^verbatim>\<open>constraint\<close> at every odd \<open>j\<close>; a list is never changed after it was appended, so
  the lists are values. \<^verbatim>\<open>sub_constraint\<close> survives from one row to the next.
\<close>

fun inner_step :: "nat \<times> 'a \<Rightarrow> 'a list list \<times> 'a list \<Rightarrow> 'a list list \<times> 'a list" where
  "inner_step (j, x) (constraint, sub_constraint) =
     (let sub1 = (if j mod 2 = 0 then [] else sub_constraint);
          sub2 = sub1 @ [x]
      in if j mod 2 = 1 then (constraint @ [sub2], sub2) else (constraint, sub2))"

fun outer_step :: "'a list \<Rightarrow> 'a list list list \<times> 'a list \<Rightarrow> 'a list list list \<times> 'a list" where
  "outer_step row (constraints, sub_constraint) =
     (let (constraint, sub1) = fold inner_step (enumerate 0 row) ([], sub_constraint)
      in (constraints @ [constraint], sub1))"

definition cell_4 :: "'a list list \<Rightarrow> 'a list list list" where
  "cell_4 production_hours = fst (fold outer_step production_hours ([], []))"

section \<open>Cells 5 to 8: the model\<close>

text \<open>
  Cell 6 declares four variables with \<^verbatim>\<open>lowBound=0, cat='Integer'\<close>. A point
  assigns an integer to each; the lower bound is the predicate \<open>in_domain\<close>.
\<close>

record point =
  x_1 :: int
  x_2 :: int
  x_3 :: int
  x_4 :: int

definition in_domain :: "point \<Rightarrow> bool" where
  "in_domain v \<longleftrightarrow> 0 \<le> x_1 v \<and> 0 \<le> x_2 v \<and> 0 \<le> x_3 v \<and> 0 \<le> x_4 v"

text \<open>Cell 7: \<^verbatim>\<open>model += 10*x_1 + 15*x_2 + 10*x_3 + 15*x_4\<close>.\<close>

definition objective :: "point \<Rightarrow> int" where
  "objective v = 10 * x_1 v + 15 * x_2 v + 10 * x_3 v + 15 * x_4 v"

text \<open>
  Cell 8 reads eight entries of \<^verbatim>\<open>constraints\<close> and compares five linear expressions
  with the literals 80, 60, 60, 75 and 120. The right-hand sides are fields of the model,
  so that a claim about other constants can be stated; \<open>notebook_limits\<close> are the
  literals of the notebook. The factor 4 of the cloth constraint and the prices stay
  literals.
\<close>

record limits =
  cutting_besiktas :: int
  sewing_besiktas :: int
  cutting_davutpasa :: int
  sewing_davutpasa :: int
  cloth_supply :: int

definition notebook_limits :: limits where
  "notebook_limits =
     \<lparr>cutting_besiktas = 80, sewing_besiktas = 60, cutting_davutpasa = 60,
      sewing_davutpasa = 75, cloth_supply = 120\<rparr>"

record lp_model =
  c000 :: int
  c001 :: int
  c100 :: int
  c101 :: int
  c010 :: int
  c011 :: int
  c110 :: int
  c111 :: int
  rhs :: limits

definition cell_8 :: "limits \<Rightarrow> int list list list \<Rightarrow> py_error + lp_model" where
  "cell_8 lims constraints =
     bind_result (idx3 constraints 0 0 0) (\<lambda>a000.
     bind_result (idx3 constraints 0 0 1) (\<lambda>a001.
     bind_result (idx3 constraints 1 0 0) (\<lambda>a100.
     bind_result (idx3 constraints 1 0 1) (\<lambda>a101.
     bind_result (idx3 constraints 0 1 0) (\<lambda>a010.
     bind_result (idx3 constraints 0 1 1) (\<lambda>a011.
     bind_result (idx3 constraints 1 1 0) (\<lambda>a110.
     bind_result (idx3 constraints 1 1 1) (\<lambda>a111.
       Inr \<lparr>c000 = a000, c001 = a001, c100 = a100, c101 = a101,
            c010 = a010, c011 = a011, c110 = a110, c111 = a111, rhs = lims\<rparr>))))))))"

definition constraint_1 :: "lp_model \<Rightarrow> point \<Rightarrow> bool" where
  \<comment> \<open>\<^verbatim>\<open>x_1*constraints[0][0][0] + x_2*constraints[0][0][1] <= 80\<close>\<close>
  "constraint_1 m v \<longleftrightarrow> x_1 v * c000 m + x_2 v * c001 m \<le> cutting_besiktas (rhs m)"

definition constraint_2 :: "lp_model \<Rightarrow> point \<Rightarrow> bool" where
  \<comment> \<open>\<^verbatim>\<open>x_1*constraints[1][0][0] + x_2*constraints[1][0][1] <= 60\<close>\<close>
  "constraint_2 m v \<longleftrightarrow> x_1 v * c100 m + x_2 v * c101 m \<le> sewing_besiktas (rhs m)"

definition constraint_3 :: "lp_model \<Rightarrow> point \<Rightarrow> bool" where
  \<comment> \<open>\<^verbatim>\<open>x_3*constraints[0][1][0] + x_4*constraints[0][1][1] <= 60\<close>\<close>
  "constraint_3 m v \<longleftrightarrow> x_3 v * c010 m + x_4 v * c011 m \<le> cutting_davutpasa (rhs m)"

definition constraint_4 :: "lp_model \<Rightarrow> point \<Rightarrow> bool" where
  \<comment> \<open>\<^verbatim>\<open>x_3*constraints[1][1][0] + x_4*constraints[1][1][1] <= 75\<close>\<close>
  "constraint_4 m v \<longleftrightarrow> x_3 v * c110 m + x_4 v * c111 m \<le> sewing_davutpasa (rhs m)"

definition constraint_5 :: "lp_model \<Rightarrow> point \<Rightarrow> bool" where
  \<comment> \<open>\<^verbatim>\<open>4*(x_1 + x_2 + x_3 + x_4) <= 120\<close>\<close>
  "constraint_5 m v \<longleftrightarrow> 4 * (x_1 v + x_2 v + x_3 v + x_4 v) \<le> cloth_supply (rhs m)"

definition feasible_point :: "lp_model \<Rightarrow> point \<Rightarrow> bool" where
  "feasible_point m v \<longleftrightarrow>
     in_domain v \<and> constraint_1 m v \<and> constraint_2 m v \<and> constraint_3 m v
       \<and> constraint_4 m v \<and> constraint_5 m v"

section \<open>Cell 9: the solver\<close>

text \<open>
  Modelled from the spec: the solver behind \<^verbatim>\<open>model.solve(solver=pulp.COIN_CMD(msg=0))\<close>
  is an external program and not part of the notebook. The specification describes it as
  a black box with exact integer-programming semantics that returns a status flag and, on
  success, the optimal value of each variable, and it names brute-force enumeration over
  the bounded search space as the reference. \<open>solve\<close> is that enumeration: every
  variable is at least 0, so the cloth constraint bounds each one by
  \<open>cloth_supply div 4\<close>. The status is 1 when a point satisfies the constraints and
  \<open>-1\<close> when none does; the notebook only compares it with 1. Among several optimal
  points the first one in the order of enumeration is returned.
\<close>

definition candidates :: "lp_model \<Rightarrow> point list" where
  "candidates m =
     (let r = [0 .. cloth_supply (rhs m) div 4]
      in concat (map (\<lambda>a. concat (map (\<lambda>b. concat (map (\<lambda>c.
           map (\<lambda>d. \<lparr>x_1 = a, x_2 = b, x_3 = c, x_4 = d\<rparr>) r) r)) r)) r))"

definition better :: "point \<Rightarrow> point \<Rightarrow> point" where
  "better v best = (if objective best < objective v then v else best)"

definition solve :: "lp_model \<Rightarrow> int \<times> point option" where
  "solve m =
     (case filter (feasible_point m) (candidates m) of
        [] \<Rightarrow> (- 1, None)
      | v # vs \<Rightarrow> (1, Some (fold better vs v)))"

section \<open>Cell 10: the reporter\<close>

text \<open>
  A printed line is either a fixed text or a label followed by a number. The numbers are
  floats that hold integers; \<open>py_float\<close> is the text \<^verbatim>\<open>"{}".format\<close> gives for such a
  float below \<open>10 ^ 16\<close>: the digits and \<^verbatim>\<open>.0\<close>. The letter s with cedilla of the two
  site names is the two bytes C5 9F of its UTF-8 encoding.
\<close>

datatype out_line = Text string | Labeled string int

definition besiktas :: string where
  "besiktas = ''Be'' @ [CHR 0xC5, CHR 0x9F] @ ''ikta'' @ [CHR 0xC5, CHR 0x9F]"

definition davutpasa :: string where
  "davutpasa = ''Davutpa'' @ [CHR 0xC5, CHR 0x9F] @ ''a''"

definition digit_char :: "nat \<Rightarrow> char" where
  "digit_char d = ''0123456789'' ! d"

fun digits :: "nat \<Rightarrow> nat \<Rightarrow> string" where
  \<comment> \<open>the decimal digits of \<open>n\<close>; the first argument bounds their number\<close>
  "digits 0 n = []"
| "digits (Suc k) n =
     (if n < 10 then [digit_char n] else digits k (n div 10) @ [digit_char (n mod 10)])"

definition py_float :: "int \<Rightarrow> string" where
  "py_float i = (if i < 0 then ''-'' else []) @ digits 16 (nat \<bar>i\<bar>) @ ''.0''"

fun render :: "out_line \<Rightarrow> string" where
  "render (Text s) = s"
| "render (Labeled l i) = l @ '': '' @ py_float i"

text \<open>
  \<^verbatim>\<open>x.value()\<close> is \<^verbatim>\<open>None\<close> for a variable without a value, and \<^verbatim>\<open>None + None\<close>
  raises. \<^verbatim>\<open>pulp.value(model.objective)\<close> evaluates the objective of cell 7 at the values
  of the variables.
\<close>

definition cell_10 :: "int \<Rightarrow> point option \<Rightarrow> py_error + out_line list" where
  "cell_10 feasible values =
     (if feasible = 1 then
        (case values of
           None \<Rightarrow> Inl TypeError
         | Some v \<Rightarrow> Inr
            [Text ''Production Quantities:'',
             Labeled (''Jeans in '' @ besiktas) (x_2 v),
             Labeled (''Jeans in '' @ davutpasa) (x_4 v),
             Labeled (''T-shirts in '' @ besiktas) (x_1 v),
             Labeled (''T-shirts in '' @ davutpasa) (x_3 v),
             Text ''Total amount used:'',
             Labeled (''Cutting in '' @ besiktas) (x_1 v + x_2 v),
             Labeled (''Cutting in '' @ davutpasa) (x_3 v + x_4 v),
             Labeled (''Sewing in '' @ besiktas) (x_1 v + x_2 v),
             Labeled (''Sewing in '' @ davutpasa) (x_3 v + x_4 v),
             Labeled (''Cloths in '' @ besiktas) (4 * (x_1 v + x_2 v)),
             Labeled (''Cloths in '' @ davutpasa) (4 * (x_3 v + x_4 v)),
             Labeled ''Total profit'' (objective v)])
      else Inr [Text ''No feasible solution found''])"

fun is_labeled :: "out_line \<Rightarrow> bool" where
  "is_labeled (Labeled l i) = True"
| "is_labeled (Text s) = False"

section \<open>The notebook\<close>

definition cells_2_to_4 ::
  "(nat \<Rightarrow> 'g) \<Rightarrow> ('g \<Rightarrow> rat \<times> 'g) \<Rightarrow> nat \<Rightarrow> 'g \<Rightarrow> py_error + int list list list" where
  \<comment> \<open>the data generator: from the seed to \<^verbatim>\<open>constraints\<close>\<close>
  "cells_2_to_4 seeding nxt seed g =
     bind_result (fst (cell_3 nxt (np_random_seed seeding seed g))) (\<lambda>production_hours.
       Inr (cell_4 production_hours))"

definition cells_8_to_10 :: "limits \<Rightarrow> int list list list \<Rightarrow> py_error + out_line list" where
  "cells_8_to_10 lims constraints =
     bind_result (cell_8 lims constraints) (\<lambda>model.
       let (feasible, values) = solve model in cell_10 feasible values)"

definition notebook ::
  "(nat \<Rightarrow> 'g) \<Rightarrow> ('g \<Rightarrow> rat \<times> 'g) \<Rightarrow> nat \<Rightarrow> 'g \<Rightarrow> py_error + out_line list" where
  "notebook seeding nxt seed g =
     bind_result (cells_2_to_4 seeding nxt seed g) (cells_8_to_10 notebook_limits)"

section \<open>Scenarios\<close>

text \<open>
  The table the notebook printed when it was run, with the solution it reported.
\<close>

definition scenario_constraints :: "int list list list" where
  "scenario_constraints = [[[10, 4], [2, 7]], [[9, 10], [7, 8]]]"

definition scenario_model :: lp_model where
  "scenario_model =
     \<lparr>c000 = 10, c001 = 4, c100 = 9, c101 = 10, c010 = 2, c011 = 7, c110 = 7, c111 = 8,
      rhs = notebook_limits\<rparr>"

definition scenario_point :: point where
  "scenario_point = \<lparr>x_1 = 0, x_2 = 6, x_3 = 1, x_4 = 8\<rparr>"

text \<open>Every capacity 0, and one capacity below 0; the cloth supply stays 120.\<close>

definition zero_capacities :: limits where
  "zero_capacities =
     \<lparr>cutting_besiktas = 0, sewing_besiktas = 0, cutting_davutpasa = 0,
      sewing_davutpasa = 0, cloth_supply = 120\<rparr>"

definition negative_capacity :: limits where
  "negative_capacity = notebook_limits\<lparr>cutting_besiktas := - 1\<rparr>"

text \<open>
  A small linear congruential generator that stands for numpy's: its samples are the
  multiples of one tenth in the interval from 1 to 10, the end 10 excluded.
\<close>

definition demo_seeding :: "nat \<Rightarrow> int" where
  "demo_seeding seed = int seed"

definition demo_nxt :: "int \<Rightarrow> rat \<times> int" where
  "demo_nxt g = (1 + of_int (g mod 90) / 10, g * 7 + 3)"

text \<open>
  How often a value is generated when the sample runs over the \<open>n\<close> equally spaced
  points \<open>1 + 9 * i / n\<close> of the interval from 1 to 10.
\<close>

definition grid_count :: "nat \<Rightarrow> int \<Rightarrow> nat" where
  "grid_count n k =
     length (filter (\<lambda>i. round_hours (1 + 9 * of_nat i / of_nat n) = k) [0 ..< n])"

text \<open>Rounding a fraction \<open>p / q\<close> as \<open>round_hours\<close> does, in integer arithmetic.\<close>

definition round_fraction :: "int \<Rightarrow> int \<Rightarrow> int" where
  "round_fraction p q =
     (if 2 * (p mod q) < q then p div q
      else if q < 2 * (p mod q) then p div q + 1
      else if even (p div q) then p div q else p div q + 1)"

definition labeled_lines :: "py_error + out_line list \<Rightarrow> nat" where
  "labeled_lines r = (case r of Inl e \<Rightarrow> 0 | Inr ls \<Rightarrow> length (filter is_labeled ls))"

definition printed_lines :: "py_error + out_line list \<Rightarrow> nat" where
  "printed_lines r = (case r of Inl e \<Rightarrow> 0 | Inr ls \<Rightarrow> length ls)"

section \<open>The extraction is a reshape\<close>

lemma cell_4_2x4:
  "cell_4 [[a, b, c, d], [e, f, g, h]] = [[[a, b], [c, d]], [[e, f], [g, h]]]"
  by (simp add: cell_4_def Let_def mod_Suc)

lemma list_of_length_4:
  assumes "length xs = 4"
  obtains a b c d where "xs = [a, b, c, d]"
proof -
  from assms obtain a b c d where "xs = [a, b, c, d]"
    by (auto simp: length_Suc_conv numeral_eq_Suc)
  then show thesis by (rule that)
qed

lemma table_2x4:
  assumes "length t = 2" and "\<forall>row \<in> set t. length row = 4"
  obtains a b c d e f g h where "t = [[a, b, c, d], [e, f, g, h]]"
proof -
  from assms(1) obtain r1 r2 where t: "t = [r1, r2]"
    by (auto simp: length_Suc_conv numeral_eq_Suc)
  with assms(2) have "length r1 = 4" and "length r2 = 4" by simp_all
  then obtain a b c d e f g h where "r1 = [a, b, c, d]" and "r2 = [e, f, g, h]"
    by (metis list_of_length_4)
  with t show thesis by (simp add: that)
qed

text \<open>
  C10. For every table of two rows and four columns, \<^verbatim>\<open>constraints[i][j][k]\<close> is the
  entry of row \<open>i\<close> (process) in column \<open>2 * j + k\<close> (site \<open>j\<close>, product \<open>k\<close>), and
  \<^verbatim>\<open>constraints\<close> has the shape 2 x 2 x 2.
\<close>

theorem cell_4_faithful_reshape:
  assumes "length t = 2" and "\<forall>row \<in> set t. length row = 4"
    and "i < 2" and "j < 2" and "k < 2"
  shows "idx3 (cell_4 t) i j k = Inr (t ! i ! (2 * j + k))
       \<and> length (cell_4 t) = 2
       \<and> length (cell_4 t ! i) = 2
       \<and> length (cell_4 t ! i ! j) = 2"
proof -
  from assms(1,2) obtain a b c d e f g h where t: "t = [[a, b, c, d], [e, f, g, h]]"
    by (rule table_2x4)
  from assms(3) have i: "i = 0 \<or> i = 1" by auto
  from assms(4) have j: "j = 0 \<or> j = 1" by auto
  from assms(5) have k: "k = 0 \<or> k = 1" by auto
  from i j k show ?thesis
    unfolding t cell_4_2x4 by (auto simp: idx3_def idx_def bind_result_def)
qed

theorem cell_4_faithful_reshape_witness:
  "idx3 (cell_4 [[10, 4, 2, 7], [9, 10, 7, 8 :: int]]) 1 0 1 = Inr 10
 \<and> idx3 (cell_4 [[10, 4, 2, 7], [9, 10, 7, 8 :: int]]) 0 1 0 = Inr 2"
  using cell_4_faithful_reshape [of "[[10, 4, 2, 7], [9, 10, 7, 8 :: int]]" 1 0 1]
    cell_4_faithful_reshape [of "[[10, 4, 2, 7], [9, 10, 7, 8 :: int]]" 0 1 0]
  by simp

section \<open>The generated table\<close>

lemma astype_int_of_int: "astype_int (of_int k) = k"
  by (simp add: astype_int_def)

lemma round_hours_cases:
  "round_hours u =
     (if u - of_int \<lfloor>u\<rfloor> < 1 / 2 then \<lfloor>u\<rfloor>
      else if 1 / 2 < u - of_int \<lfloor>u\<rfloor> then \<lfloor>u\<rfloor> + 1
      else if even \<lfloor>u\<rfloor> then \<lfloor>u\<rfloor> else \<lfloor>u\<rfloor> + 1)"
  unfolding round_hours_def np_round_def Let_def by (rule astype_int_of_int)

lemma round_hours_nearest: "\<bar>of_int (round_hours u) - u\<bar> \<le> 1 / 2"
proof -
  have "of_int \<lfloor>u\<rfloor> \<le> u" and "u < of_int \<lfloor>u\<rfloor> + 1" by linarith+
  then show ?thesis by (auto simp: round_hours_cases)
qed

lemma round_hours_range:
  assumes "1 \<le> u" and "u \<le> 10"
  shows "1 \<le> round_hours u \<and> round_hours u \<le> 10"
proof -
  have n: "\<bar>of_int (round_hours u) - u\<bar> \<le> 1 / 2" by (rule round_hours_nearest)
  with assms(1) have "(0::rat) < of_int (round_hours u)" by linarith
  then have lo: "1 \<le> round_hours u" by simp
  from n assms(2) have "(of_int (round_hours u) :: rat) < 11" by linarith
  then have "(of_int (round_hours u) :: rat) < of_int 11" by simp
  then have "round_hours u < 11" by (simp only: of_int_less_iff)
  with lo show ?thesis by simp
qed

lemma random_hours_4:
  "random_hours nxt g =
     (Inr [[round_hours (fst (nxt g)), round_hours (fst (nxt (snd (nxt g))))],
           [round_hours (fst (nxt (snd (nxt (snd (nxt g)))))),
            round_hours (fst (nxt (snd (nxt (snd (nxt (snd (nxt g)))))))) ]],
      snd (nxt (snd (nxt (snd (nxt (snd (nxt g))))))))"
  by (simp add: random_hours_def numeral_eq_Suc split_beta Let_def)

text \<open>
  C8. The table is a function of the seed alone: \<^verbatim>\<open>np.random.seed\<close> overwrites the
  state of the generator, so two runs with the same seed give the same table, and the
  same report, whatever the state was before.
\<close>

theorem generator_deterministic:
  "cells_2_to_4 seeding nxt seed g = cells_2_to_4 seeding nxt seed g'
 \<and> notebook seeding nxt seed g = notebook seeding nxt seed g'"
proof -
  have "np_random_seed seeding seed g = np_random_seed seeding seed g'"
    by (simp add: np_random_seed_def)
  then have "cells_2_to_4 seeding nxt seed g = cells_2_to_4 seeding nxt seed g'"
    by (simp add: cells_2_to_4_def)
  then show ?thesis by (simp add: notebook_def)
qed

lemma np_random_uniform_8:
  "fst (np_random_uniform nxt 8 g) =
     [fst (nxt g),
      fst (nxt (snd (nxt g))),
      fst (nxt (snd (nxt (snd (nxt g))))),
      fst (nxt (snd (nxt (snd (nxt (snd (nxt g))))))),
      fst (nxt (snd (nxt (snd (nxt (snd (nxt (snd (nxt g))))))))),
      fst (nxt (snd (nxt (snd (nxt (snd (nxt (snd (nxt (snd (nxt g))))))))))),
      fst (nxt (snd (nxt (snd (nxt (snd (nxt (snd (nxt (snd (nxt (snd (nxt g))))))))))))),
      fst (nxt (snd (nxt (snd (nxt (snd (nxt (snd (nxt (snd (nxt (snd (nxt (snd (nxt g)))))))))))))))]"
  by (simp add: numeral_eq_Suc split_beta Let_def)

lemma cells_2_to_4_samples:
  assumes "fst (np_random_uniform nxt 8 (seeding seed)) = [u0, u1, u2, u3, u4, u5, u6, u7]"
  shows "cells_2_to_4 seeding nxt seed g0 =
     Inr [[[round_hours u0, round_hours u1], [round_hours u4, round_hours u5]],
          [[round_hours u2, round_hours u3], [round_hours u6, round_hours u7]]]"
  using assms unfolding np_random_uniform_8
  by (simp add: cells_2_to_4_def np_random_seed_def cell_3_def random_hours_4 bind_result_def
      pd_concat_axis1_def cell_4_2x4)

text \<open>
  C3, amended. When every sample of \<^verbatim>\<open>np.random.uniform(low=1, high=10)\<close> lies
  between 1 and 10, the generator draws eight samples and the table is, in the order
  process, site, product, the eight samples rounded to the nearest integer (a tie to the
  even neighbour): every entry is an integer between 1 and 10 that differs from its
  sample by at most one half. The first four samples fill the two columns of Besiktas,
  the last four those of Davutpasa.
\<close>

theorem generated_table:
  assumes "\<forall>g. 1 \<le> fst (nxt g) \<and> fst (nxt g) \<le> 10"
  shows "\<exists>u0 u1 u2 u3 u4 u5 u6 u7.
      fst (np_random_uniform nxt 8 (seeding seed)) = [u0, u1, u2, u3, u4, u5, u6, u7]
    \<and> cells_2_to_4 seeding nxt seed g0 =
        Inr [[[round_hours u0, round_hours u1], [round_hours u4, round_hours u5]],
             [[round_hours u2, round_hours u3], [round_hours u6, round_hours u7]]]
    \<and> (\<forall>u \<in> set [u0, u1, u2, u3, u4, u5, u6, u7].
          1 \<le> round_hours u \<and> round_hours u \<le> 10 \<and> \<bar>of_int (round_hours u) - u\<bar> \<le> 1 / 2)"
proof -
  let ?g1 = "snd (nxt (seeding seed))"
  let ?g2 = "snd (nxt ?g1)"
  let ?g3 = "snd (nxt ?g2)"
  let ?g4 = "snd (nxt ?g3)"
  let ?g5 = "snd (nxt ?g4)"
  let ?g6 = "snd (nxt ?g5)"
  let ?g7 = "snd (nxt ?g6)"
  let ?us = "[fst (nxt (seeding seed)), fst (nxt ?g1), fst (nxt ?g2), fst (nxt ?g3),
      fst (nxt ?g4), fst (nxt ?g5), fst (nxt ?g6), fst (nxt ?g7)]"
  have us: "fst (np_random_uniform nxt 8 (seeding seed)) = ?us"
    by (rule np_random_uniform_8)
  then have t: "cells_2_to_4 seeding nxt seed g0 =
        Inr [[[round_hours (fst (nxt (seeding seed))), round_hours (fst (nxt ?g1))],
              [round_hours (fst (nxt ?g4)), round_hours (fst (nxt ?g5))]],
             [[round_hours (fst (nxt ?g2)), round_hours (fst (nxt ?g3))],
              [round_hours (fst (nxt ?g6)), round_hours (fst (nxt ?g7))]]]"
    by (rule cells_2_to_4_samples)
  have one: "1 \<le> round_hours (fst (nxt g)) \<and> round_hours (fst (nxt g)) \<le> 10
      \<and> \<bar>of_int (round_hours (fst (nxt g))) - fst (nxt g)\<bar> \<le> 1 / 2" for g
    using assms round_hours_range round_hours_nearest by blast
  have r: "\<forall>u \<in> set ?us.
      1 \<le> round_hours u \<and> round_hours u \<le> 10 \<and> \<bar>of_int (round_hours u) - u\<bar> \<le> 1 / 2"
  proof
    fix u
    assume "u \<in> set ?us"
    then have "\<exists>g. u = fst (nxt g)" by auto
    then obtain g where "u = fst (nxt g)" ..
    then show "1 \<le> round_hours u \<and> round_hours u \<le> 10
        \<and> \<bar>of_int (round_hours u) - u\<bar> \<le> 1 / 2"
      by (simp only: one)
  qed
  show ?thesis
    by (intro exI conjI) (rule us, rule t, rule r)
qed

lemma demo_nxt_range: "1 \<le> fst (demo_nxt g) \<and> fst (demo_nxt g) \<le> 10"
proof -
  have "g mod 90 \<le> 90" by simp
  then have "(of_int (g mod 90) :: rat) \<le> of_int 90" by (simp only: of_int_le_iff)
  moreover have "(0::rat) \<le> of_int (g mod 90)" by simp
  ultimately show ?thesis by (simp add: demo_nxt_def)
qed

lemma demo_samples:
  "fst (np_random_uniform demo_nxt 8 (demo_seeding 5)) =
     [3 / 2, 24 / 5, 99 / 10, 48 / 5, 15 / 2, 9 / 5, 69 / 10, 33 / 5]"
  unfolding np_random_uniform_8 by (simp add: demo_nxt_def demo_seeding_def)

lemma demo_rounded:
  "map round_hours [3 / 2, 24 / 5, 99 / 10, 48 / 5, 15 / 2, 9 / 5, 69 / 10, 33 / 5]
     = [2, 5, 10, 10, 8, 2, 7, 7]"
  by code_simp

theorem generated_table_witness:
  "(\<forall>g. 1 \<le> fst (demo_nxt g) \<and> fst (demo_nxt g) \<le> 10)
 \<and> cells_2_to_4 demo_seeding demo_nxt 5 0 = Inr [[[2, 5], [8, 2]], [[10, 10], [7, 7]]]"
proof -
  have r: "\<forall>g. 1 \<le> fst (demo_nxt g) \<and> fst (demo_nxt g) \<le> 10"
    using demo_nxt_range by blast
  from generated_table [OF r, of demo_seeding 5 0] obtain u0 u1 u2 u3 u4 u5 u6 u7
    where us: "fst (np_random_uniform demo_nxt 8 (demo_seeding 5))
        = [u0, u1, u2, u3, u4, u5, u6, u7]"
      and t: "cells_2_to_4 demo_seeding demo_nxt 5 0 =
        Inr [[[round_hours u0, round_hours u1], [round_hours u4, round_hours u5]],
             [[round_hours u2, round_hours u3], [round_hours u6, round_hours u7]]]"
    by (elim exE conjE) (rule that; assumption)
  from us have "[u0, u1, u2, u3, u4, u5, u6, u7]
      = [3 / 2, 24 / 5, 99 / 10, 48 / 5, 15 / 2, 9 / 5, 69 / 10, 33 / 5]"
    by (simp only: demo_samples)
  with demo_rounded
  have "map round_hours [u0, u1, u2, u3, u4, u5, u6, u7] = [2, 5, 10, 10, 8, 2, 7, 7]"
    by (simp only:)
  with t have "cells_2_to_4 demo_seeding demo_nxt 5 0 = Inr [[[2, 5], [8, 2]], [[10, 10], [7, 7]]]"
    by simp
  with r show ?thesis by blast
qed

text \<open>
  Which samples give the values 1, 2 and 10: the three intervals have the lengths one
  half, 1 and one half.
\<close>

lemma round_hours_floor:
  assumes "of_int k \<le> u" and "u < of_int k + 1"
  shows "round_hours u =
     (if u - of_int k < 1 / 2 then k
      else if 1 / 2 < u - of_int k then k + 1
      else if even k then k else k + 1)"
proof -
  from assms have "\<lfloor>u\<rfloor> = k" by linarith
  then show ?thesis by (simp only: round_hours_cases)
qed

lemma round_hours_eq_1:
  assumes "1 \<le> u"
  shows "round_hours u = 1 \<longleftrightarrow> u < 3 / 2"
proof
  assume r: "round_hours u = 1"
  have "\<bar>of_int (round_hours u) - u\<bar> \<le> 1 / 2" by (rule round_hours_nearest)
  with r have "\<bar>1 - u\<bar> \<le> 1 / 2" by simp
  then have le: "u \<le> 3 / 2" by linarith
  have "u \<noteq> 3 / 2"
  proof
    assume "u = 3 / 2"
    then have "round_hours u = 2"
      using round_hours_floor [of 1 u] by simp
    with r show False by simp
  qed
  with le show "u < 3 / 2" by simp
next
  assume "u < 3 / 2"
  with assms show "round_hours u = 1"
    using round_hours_floor [of 1 u] by simp
qed

lemma round_hours_eq_2: "round_hours u = 2 \<longleftrightarrow> 3 / 2 \<le> u \<and> u \<le> 5 / 2"
proof
  assume r: "round_hours u = 2"
  have "\<bar>of_int (round_hours u) - u\<bar> \<le> 1 / 2" by (rule round_hours_nearest)
  with r have "\<bar>2 - u\<bar> \<le> 1 / 2" by simp
  then show "3 / 2 \<le> u \<and> u \<le> 5 / 2" by linarith
next
  assume a: "3 / 2 \<le> u \<and> u \<le> 5 / 2"
  show "round_hours u = 2"
  proof (cases "u < 2")
    case True
    with a show ?thesis using round_hours_floor [of 1 u] by simp
  next
    case False
    with a show ?thesis using round_hours_floor [of 2 u] by simp
  qed
qed

lemma round_hours_eq_10:
  assumes "u \<le> 10"
  shows "round_hours u = 10 \<longleftrightarrow> 19 / 2 \<le> u"
proof
  assume r: "round_hours u = 10"
  have "\<bar>of_int (round_hours u) - u\<bar> \<le> 1 / 2" by (rule round_hours_nearest)
  with r have "\<bar>10 - u\<bar> \<le> 1 / 2" by simp
  then show "19 / 2 \<le> u" by linarith
next
  assume a: "19 / 2 \<le> u"
  show "round_hours u = 10"
  proof (cases "u < 10")
    case True
    with a show ?thesis using round_hours_floor [of 9 u] by simp
  next
    case False
    with assms show ?thesis using round_hours_floor [of 10 u] by simp
  qed
qed

lemma round_hours_fraction:
  assumes "0 < q"
  shows "round_hours (of_int p / of_int q) = round_fraction p q"
proof -
  let ?u = "of_int p / of_int q :: rat"
  from assms have q: "(0::rat) < of_int q" by simp
  have f: "\<lfloor>?u\<rfloor> = p div q" by (rule floor_divide_of_int_eq)
  have "of_int p = (of_int (p div q) * of_int q + of_int (p mod q) :: rat)"
    by (metis div_mult_mod_eq of_int_add of_int_mult)
  with q have d: "?u - of_int (p div q) = of_int (p mod q) / of_int q"
    by (simp add: field_simps)
  from q have lt: "of_int (p mod q) / (of_int q :: rat) < 1 / 2 \<longleftrightarrow> 2 * (p mod q) < q"
  proof -
    have "of_int (p mod q) / (of_int q :: rat) < 1 / 2
        \<longleftrightarrow> (of_int (2 * (p mod q)) :: rat) < of_int q"
      using q by (simp add: field_simps)
    then show ?thesis by (simp only: of_int_less_iff)
  qed
  from q have gt: "1 / 2 < of_int (p mod q) / (of_int q :: rat) \<longleftrightarrow> q < 2 * (p mod q)"
  proof -
    have "1 / 2 < of_int (p mod q) / (of_int q :: rat)
        \<longleftrightarrow> (of_int q :: rat) < of_int (2 * (p mod q))"
      using q by (simp add: field_simps)
    then show ?thesis by (simp only: of_int_less_iff)
  qed
  show ?thesis
    unfolding round_hours_cases f d lt gt round_fraction_def ..
qed

lemma grid_sample:
  assumes "0 < n"
  shows "(1 + 9 * of_nat i / of_nat n :: rat) = of_int (int n + 9 * int i) / of_int (int n)"
  using assms by (simp add: field_simps)

lemma grid_count_int:
  assumes "0 < n"
  shows "grid_count n k =
     length (filter (\<lambda>i. round_fraction (int n + 9 * int i) (int n) = k) [0 ..< n])"
proof -
  have "round_hours (1 + 9 * of_nat i / of_nat n) = round_fraction (int n + 9 * int i) (int n)"
    for i
    unfolding grid_sample [OF assms] using assms by (intro round_hours_fraction) simp
  then show ?thesis by (simp add: grid_count_def)
qed

text \<open>
  C3, as stated, fails: the values are not equally likely. Of 110 equally spaced
  samples of the interval from 1 to 10, seven give the value 1, twelve give 2 and six
  give 10, where equal likelihood needs eleven each.
\<close>

theorem uniform_counterexample:
  "grid_count 110 1 = 7 \<and> grid_count 110 2 = 12 \<and> grid_count 110 10 = 6"
  by (simp add: grid_count_int round_fraction_def upt_rec)

section \<open>The enumeration finds an optimal point\<close>

lemma point_in_candidates:
  assumes "a \<in> {0 .. cloth_supply (rhs m) div 4}" and "b \<in> {0 .. cloth_supply (rhs m) div 4}"
    and "c \<in> {0 .. cloth_supply (rhs m) div 4}" and "d \<in> {0 .. cloth_supply (rhs m) div 4}"
  shows "\<lparr>x_1 = a, x_2 = b, x_3 = c, x_4 = d\<rparr> \<in> set (candidates m)"
proof -
  let ?R = "{0 .. cloth_supply (rhs m) div 4}"
  let ?p = "\<lparr>x_1 = a, x_2 = b, x_3 = c, x_4 = d\<rparr>"
  have "?p \<in> (\<lambda>w. \<lparr>x_1 = a, x_2 = b, x_3 = c, x_4 = w\<rparr>) ` ?R"
    using assms(4) by (rule imageI)
  with assms(3) have "\<exists>z\<in>?R. ?p \<in> (\<lambda>w. \<lparr>x_1 = a, x_2 = b, x_3 = z, x_4 = w\<rparr>) ` ?R"
    by (rule rev_bexI)
  with assms(2) have
    "\<exists>y\<in>?R. \<exists>z\<in>?R. ?p \<in> (\<lambda>w. \<lparr>x_1 = a, x_2 = y, x_3 = z, x_4 = w\<rparr>) ` ?R"
    by (rule rev_bexI)
  with assms(1) have
    "\<exists>x\<in>?R. \<exists>y\<in>?R. \<exists>z\<in>?R. ?p \<in> (\<lambda>w. \<lparr>x_1 = x, x_2 = y, x_3 = z, x_4 = w\<rparr>) ` ?R"
    by (rule rev_bexI)
  then show ?thesis by (simp add: candidates_def Let_def)
qed

lemma candidates_complete:
  assumes "feasible_point m v"
  shows "v \<in> set (candidates m)"
proof -
  let ?s = "cloth_supply (rhs m)"
  obtain a b c d where v: "v = \<lparr>x_1 = a, x_2 = b, x_3 = c, x_4 = d\<rparr>"
    by (cases v)
  from assms have n: "0 \<le> a" "0 \<le> b" "0 \<le> c" "0 \<le> d"
    and s: "4 * (a + b + c + d) \<le> ?s"
    by (simp_all add: v feasible_point_def in_domain_def constraint_5_def)
  from n s have "a \<le> ?s div 4" and "b \<le> ?s div 4" and "c \<le> ?s div 4" and "d \<le> ?s div 4"
    by arith+
  with n show ?thesis
    unfolding v by (intro point_in_candidates) simp_all
qed

lemma fold_better_mem: "fold better vs v \<in> set (v # vs)"
  by (induction vs arbitrary: v) (auto simp: better_def)

lemma fold_better_ge_start: "objective v \<le> objective (fold better vs v)"
proof (induction vs arbitrary: v)
  case Nil
  show ?case by simp
next
  case (Cons w ws)
  have "objective v \<le> objective (better w v)" by (simp add: better_def)
  also have "\<dots> \<le> objective (fold better ws (better w v))" by (rule Cons.IH)
  finally show ?case by simp
qed

lemma fold_better_max: "y \<in> set (v # vs) \<Longrightarrow> objective y \<le> objective (fold better vs v)"
proof (induction vs arbitrary: v)
  case Nil
  then show ?case by simp
next
  case (Cons w ws)
  show ?case
  proof (cases "y \<in> set (better w v # ws)")
    case True
    then show ?thesis using Cons.IH by simp
  next
    case False
    with Cons.prems have "objective y \<le> objective (better w v)"
      by (auto simp: better_def split: if_splits)
    also have "\<dots> \<le> objective (fold better ws (better w v))" by (rule fold_better_ge_start)
    finally show ?thesis by simp
  qed
qed

lemma solve_optimal:
  assumes "feasible_point m y"
  shows "\<exists>v. solve m = (1, Some v) \<and> feasible_point m v
           \<and> (\<forall>z. feasible_point m z \<longrightarrow> objective z \<le> objective v)"
proof -
  let ?fs = "filter (feasible_point m) (candidates m)"
  from assms have "y \<in> set ?fs" by (simp add: candidates_complete)
  then obtain v vs where fs: "?fs = v # vs" by (cases ?fs) auto
  let ?best = "fold better vs v"
  have s: "solve m = (1, Some ?best)" by (simp add: solve_def fs)
  have "?best \<in> set ?fs" unfolding fs by (rule fold_better_mem)
  then have f: "feasible_point m ?best" by simp
  have "objective z \<le> objective ?best" if "feasible_point m z" for z
  proof -
    from that have "z \<in> set ?fs" by (simp add: candidates_complete)
    then show ?thesis unfolding fs by (rule fold_better_max)
  qed
  with s f show ?thesis by blast
qed

lemma solve_infeasible:
  assumes "\<forall>v. \<not> feasible_point m v"
  shows "solve m = (- 1, None)"
proof -
  from assms have "filter (feasible_point m) (candidates m) = []"
    by (simp add: filter_empty_conv)
  then show ?thesis by (simp add: solve_def)
qed

lemma cell_8_table:
  "cell_8 lims [[[a, b], [c, d]], [[e, f], [g, h]]] =
     Inr \<lparr>c000 = a, c001 = b, c100 = e, c101 = f, c010 = c, c011 = d, c110 = g, c111 = h,
          rhs = lims\<rparr>"
  by (simp add: cell_8_def idx3_def idx_def bind_result_def)

lemma origin_feasible:
  assumes "0 \<le> cutting_besiktas (rhs m)" and "0 \<le> sewing_besiktas (rhs m)"
    and "0 \<le> cutting_davutpasa (rhs m)" and "0 \<le> sewing_davutpasa (rhs m)"
    and "0 \<le> cloth_supply (rhs m)"
  shows "feasible_point m \<lparr>x_1 = 0, x_2 = 0, x_3 = 0, x_4 = 0\<rparr>"
  using assms
  by (simp add: feasible_point_def in_domain_def constraint_1_def constraint_2_def
      constraint_3_def constraint_4_def constraint_5_def)

lemma notebook_model_solved:
  assumes "rhs m = notebook_limits"
  shows "\<exists>v. solve m = (1, Some v) \<and> feasible_point m v
           \<and> (\<forall>z. feasible_point m z \<longrightarrow> objective z \<le> objective v)"
proof -
  have "feasible_point m \<lparr>x_1 = 0, x_2 = 0, x_3 = 0, x_4 = 0\<rparr>"
    by (rule origin_feasible) (simp_all add: assms notebook_limits_def)
  then show ?thesis by (rule solve_optimal)
qed

section \<open>The scenario of the specification\<close>

lemma besiktas_bound:
  fixes a b :: int
  assumes "0 \<le> a" and "0 \<le> b" and "a * 10 + b * 4 \<le> 80" and "a * 9 + b * 10 \<le> 60"
  shows "10 * a + 15 * b \<le> 90"
  using assms by linarith

lemma besiktas_unique:
  fixes a b :: int
  assumes "0 \<le> a" and "0 \<le> b" and "a * 9 + b * 10 \<le> 60" and "10 * a + 15 * b = 90"
  shows "a = 0 \<and> b = 6"
proof -
  from assms have "a \<le> 0" by linarith
  with assms(1) have "a = 0" by simp
  with assms(4) show ?thesis by simp
qed

lemma davutpasa_cases:
  fixes c d :: int
  assumes "0 \<le> c" and "0 \<le> d" and "c * 2 + d * 7 \<le> 60" and "c * 7 + d * 8 \<le> 75"
  shows "10 * c + 15 * d < 130 \<or> (c = 1 \<and> d = 8)"
proof -
  from assms have "d \<le> 8" by linarith
  then consider "d \<le> 6" | "d = 7" | "d = 8" by linarith
  then show ?thesis
  proof cases
    case 1
    with assms show ?thesis by linarith
  next
    case 2
    with assms have "c \<le> 2" by linarith
    with 2 show ?thesis by linarith
  next
    case 3
    with assms have "c \<le> 1" by linarith
    with 3 show ?thesis by linarith
  qed
qed

lemma scenario_bound:
  assumes "feasible_point scenario_model v"
  shows "objective v \<le> 220 \<and> (objective v = 220 \<longrightarrow> v = scenario_point)"
proof -
  obtain a b c d where v: "v = \<lparr>x_1 = a, x_2 = b, x_3 = c, x_4 = d\<rparr>"
    by (cases v)
  from assms have n: "0 \<le> a" "0 \<le> b" "0 \<le> c" "0 \<le> d"
    and k: "a * 10 + b * 4 \<le> 80" "a * 9 + b * 10 \<le> 60" "c * 2 + d * 7 \<le> 60" "c * 7 + d * 8 \<le> 75"
    by (simp_all add: v feasible_point_def in_domain_def constraint_1_def constraint_2_def
        constraint_3_def constraint_4_def scenario_model_def notebook_limits_def)
  have o: "objective v = (10 * a + 15 * b) + (10 * c + 15 * d)"
    by (simp add: v objective_def)
  from n k have be: "10 * a + 15 * b \<le> 90" by (intro besiktas_bound)
  from n k have da: "10 * c + 15 * d < 130 \<or> (c = 1 \<and> d = 8)" by (intro davutpasa_cases)
  from be da have le: "objective v \<le> 220" unfolding o by linarith
  have "v = scenario_point" if "objective v = 220"
  proof -
    from that be da have cd: "c = 1 \<and> d = 8" unfolding o by linarith
    with that have "10 * a + 15 * b = 90" unfolding o by simp
    with n k have "a = 0 \<and> b = 6" by (intro besiktas_unique)
    with cd show ?thesis by (simp add: v scenario_point_def)
  qed
  with le show ?thesis by blast
qed

lemma scenario_point_feasible: "feasible_point scenario_model scenario_point"
  by (simp add: feasible_point_def in_domain_def constraint_1_def constraint_2_def
      constraint_3_def constraint_4_def constraint_5_def scenario_model_def scenario_point_def
      notebook_limits_def)

text \<open>
  C1. In the scenario of the specification the model that cell 8 builds is
  \<open>scenario_model\<close>. The point \<open>x_1 = 0, x_2 = 6, x_3 = 1, x_4 = 8\<close> satisfies the
  lower bounds and the five constraints, its objective value is 220, no point that
  satisfies them has a higher objective value, and no other point reaches 220.
\<close>

theorem scenario_optimum:
  "cell_8 notebook_limits [[[10, 4], [2, 7]], [[9, 10], [7, 8]]] = Inr scenario_model
 \<and> feasible_point scenario_model \<lparr>x_1 = 0, x_2 = 6, x_3 = 1, x_4 = 8\<rparr>
 \<and> objective \<lparr>x_1 = 0, x_2 = 6, x_3 = 1, x_4 = 8\<rparr> = 220
 \<and> (\<forall>v. feasible_point scenario_model v \<longrightarrow>
        objective v \<le> 220 \<and> (objective v = 220 \<longrightarrow> v = \<lparr>x_1 = 0, x_2 = 6, x_3 = 1, x_4 = 8\<rparr>))"
proof -
  have "cell_8 notebook_limits [[[10, 4], [2, 7]], [[9, 10], [7, 8]]] = Inr scenario_model"
    by (simp add: cell_8_table scenario_model_def)
  moreover have "feasible_point scenario_model \<lparr>x_1 = 0, x_2 = 6, x_3 = 1, x_4 = 8\<rparr>"
    using scenario_point_feasible by (simp add: scenario_point_def)
  moreover have "objective \<lparr>x_1 = 0, x_2 = 6, x_3 = 1, x_4 = 8\<rparr> = 220"
    by (simp add: objective_def)
  moreover have "\<forall>v. feasible_point scenario_model v \<longrightarrow>
        objective v \<le> 220 \<and> (objective v = 220 \<longrightarrow> v = \<lparr>x_1 = 0, x_2 = 6, x_3 = 1, x_4 = 8\<rparr>)"
    using scenario_bound by (simp add: scenario_point_def)
  ultimately show ?thesis by blast
qed

theorem scenario_optimum_witness:
  "feasible_point scenario_model \<lparr>x_1 = 6, x_2 = 0, x_3 = 10, x_4 = 0\<rparr>
 \<and> objective \<lparr>x_1 = 6, x_2 = 0, x_3 = 10, x_4 = 0\<rparr> \<le> 220
 \<and> \<lparr>x_1 = 6, x_2 = 0, x_3 = 10, x_4 = 0\<rparr> \<noteq> \<lparr>x_1 = 0, x_2 = 6, x_3 = 1, x_4 = (8::int)\<rparr>"
proof -
  have f: "feasible_point scenario_model \<lparr>x_1 = 6, x_2 = 0, x_3 = 10, x_4 = 0\<rparr>"
    by (simp add: feasible_point_def in_domain_def constraint_1_def constraint_2_def
        constraint_3_def constraint_4_def constraint_5_def scenario_model_def notebook_limits_def)
  with scenario_optimum have "objective \<lparr>x_1 = 6, x_2 = 0, x_3 = 10, x_4 = 0\<rparr> \<le> 220"
    by blast
  with f show ?thesis by simp
qed

lemma scenario_solved: "solve scenario_model = (1, Some scenario_point)"
proof -
  from scenario_point_feasible obtain v where s: "solve scenario_model = (1, Some v)"
    and f: "feasible_point scenario_model v"
    and o: "\<forall>z. feasible_point scenario_model z \<longrightarrow> objective z \<le> objective v"
    using solve_optimal by blast
  from o scenario_point_feasible have "objective scenario_point \<le> objective v" by blast
  then have "220 \<le> objective v" by (simp add: objective_def scenario_point_def)
  with scenario_bound [OF f] have "v = scenario_point" by linarith
  with s show ?thesis by simp
qed

section \<open>The report\<close>

lemma cells_8_to_10_solved:
  assumes "cell_8 lims constraints = Inr m" and "solve m = (1, Some v)"
  shows "cells_8_to_10 lims constraints = cell_10 1 (Some v)"
  using assms by (simp add: cells_8_to_10_def bind_result_def)

lemma cell_10_success_lines: "printed_lines (cell_10 1 (Some v)) = 13"
  by (simp add: cell_10_def printed_lines_def)

text \<open>
  C2, as stated, fails. For the solution the notebook reported, cell 10 prints thirteen
  lines, eleven of them a label with a number: the claim counts nine and leaves out the
  two cloth lines; the two headings carry no number.
\<close>

theorem nine_lines_counterexample:
  "labeled_lines (cell_10 1 (Some \<lparr>x_1 = 0, x_2 = 6, x_3 = 1, x_4 = 8\<rparr>)) = 11
 \<and> printed_lines (cell_10 1 (Some \<lparr>x_1 = 0, x_2 = 6, x_3 = 1, x_4 = 8\<rparr>)) = 13"
  by (simp add: cell_10_def labeled_lines_def printed_lines_def)

text \<open>
  C2, amended. On success cell 10 prints thirteen lines: the heading of the quantities,
  four quantities, the heading of the amounts used, four utilization figures, two cloth
  figures and the profit; eleven of them are a label with a number. With any status
  other than 1 it prints the single line of the failure message.
\<close>

theorem cell_10_output:
  "cell_10 1 (Some v) = Inr
     [Text ''Production Quantities:'',
      Labeled (''Jeans in '' @ besiktas) (x_2 v),
      Labeled (''Jeans in '' @ davutpasa) (x_4 v),
      Labeled (''T-shirts in '' @ besiktas) (x_1 v),
      Labeled (''T-shirts in '' @ davutpasa) (x_3 v),
      Text ''Total amount used:'',
      Labeled (''Cutting in '' @ besiktas) (x_1 v + x_2 v),
      Labeled (''Cutting in '' @ davutpasa) (x_3 v + x_4 v),
      Labeled (''Sewing in '' @ besiktas) (x_1 v + x_2 v),
      Labeled (''Sewing in '' @ davutpasa) (x_3 v + x_4 v),
      Labeled (''Cloths in '' @ besiktas) (4 * (x_1 v + x_2 v)),
      Labeled (''Cloths in '' @ davutpasa) (4 * (x_3 v + x_4 v)),
      Labeled ''Total profit'' (10 * x_1 v + 15 * x_2 v + 10 * x_3 v + 15 * x_4 v)]
 \<and> printed_lines (cell_10 1 (Some v)) = 13
 \<and> labeled_lines (cell_10 1 (Some v)) = 11
 \<and> (feasible \<noteq> 1 \<longrightarrow> cell_10 feasible values = Inr [Text ''No feasible solution found''])"
  by (simp add: cell_10_def labeled_lines_def printed_lines_def objective_def)

theorem cell_10_output_witness:
  "cell_10 (- 1) None = Inr [Text ''No feasible solution found'']
 \<and> labeled_lines (cell_10 1 (Some \<lparr>x_1 = 0, x_2 = 0, x_3 = 0, x_4 = 0\<rparr>)) = 11"
proof -
  note out = cell_10_output [of "\<lparr>x_1 = 0, x_2 = 0, x_3 = 0, x_4 = 0\<rparr>" "- 1" None]
  from out have n: "labeled_lines (cell_10 1 (Some \<lparr>x_1 = 0, x_2 = 0, x_3 = 0, x_4 = 0\<rparr>)) = 11"
    by blast
  from out have "(- 1 :: int) \<noteq> 1 \<longrightarrow>
      cell_10 (- 1) None = Inr [Text ''No feasible solution found'']"
    by blast
  then have "cell_10 (- 1) None = Inr [Text ''No feasible solution found'']" by simp
  with n show ?thesis by blast
qed

text \<open>
  C9. For every solution that is reported, the Cutting and the Sewing figure of a site
  are the same number, the sum of the two quantities printed for that site:
  \<open>x_1 + x_2\<close> for Besiktas and \<open>x_3 + x_4\<close> for Davutpasa. The coefficient table
  is no argument of \<open>cell_10\<close>, so no coefficient enters a figure.
\<close>

theorem utilization_is_quantity_sum:
  "\<exists>ls. cell_10 1 (Some v) = Inr ls
     \<and> ls ! 3 = Labeled (''T-shirts in '' @ besiktas) (x_1 v)
     \<and> ls ! 1 = Labeled (''Jeans in '' @ besiktas) (x_2 v)
     \<and> ls ! 6 = Labeled (''Cutting in '' @ besiktas) (x_1 v + x_2 v)
     \<and> ls ! 8 = Labeled (''Sewing in '' @ besiktas) (x_1 v + x_2 v)
     \<and> ls ! 4 = Labeled (''T-shirts in '' @ davutpasa) (x_3 v)
     \<and> ls ! 2 = Labeled (''Jeans in '' @ davutpasa) (x_4 v)
     \<and> ls ! 7 = Labeled (''Cutting in '' @ davutpasa) (x_3 v + x_4 v)
     \<and> ls ! 9 = Labeled (''Sewing in '' @ davutpasa) (x_3 v + x_4 v)"
  by (simp add: cell_10_def)

text \<open>
  In the scenario the figure printed for Cutting in Besiktas is 6, the number of units,
  where the cutting hours used there are \<open>0 * 10 + 6 * 4 = 24\<close>.
\<close>

lemma scenario_utilization:
  "projr (cell_10 1 (Some scenario_point)) ! 6 = Labeled (''Cutting in '' @ besiktas) 6
 \<and> x_1 scenario_point * c000 scenario_model + x_2 scenario_point * c001 scenario_model = 24"
  by (simp add: cell_10_def scenario_point_def scenario_model_def)

lemma zero_capacities_origin:
  assumes "feasible_point
     \<lparr>c000 = 10, c001 = 4, c100 = 9, c101 = 10, c010 = 2, c011 = 7, c110 = 7, c111 = 8,
      rhs = zero_capacities\<rparr> v"
  shows "v = \<lparr>x_1 = 0, x_2 = 0, x_3 = 0, x_4 = 0\<rparr>"
proof -
  obtain a b c d where v: "v = \<lparr>x_1 = a, x_2 = b, x_3 = c, x_4 = d\<rparr>"
    by (cases v)
  from assms have n: "0 \<le> a" "0 \<le> b" "0 \<le> c" "0 \<le> d"
    and k: "a * 10 + b * 4 \<le> 0" "c * 2 + d * 7 \<le> 0"
    by (simp_all add: v feasible_point_def in_domain_def constraint_1_def constraint_3_def
        zero_capacities_def)
  from n k have "a = 0" and "b = 0" and "c = 0" and "d = 0" by linarith+
  then show ?thesis by (simp add: v)
qed

lemma zero_capacities_solved:
  "solve \<lparr>c000 = 10, c001 = 4, c100 = 9, c101 = 10, c010 = 2, c011 = 7, c110 = 7, c111 = 8,
      rhs = zero_capacities\<rparr> = (1, Some \<lparr>x_1 = 0, x_2 = 0, x_3 = 0, x_4 = 0\<rparr>)"
proof -
  let ?m = "\<lparr>c000 = 10, c001 = 4, c100 = 9, c101 = 10, c010 = 2, c011 = 7, c110 = 7, c111 = 8,
      rhs = zero_capacities\<rparr>"
  have "feasible_point ?m \<lparr>x_1 = 0, x_2 = 0, x_3 = 0, x_4 = 0\<rparr>"
    by (rule origin_feasible) (simp_all add: zero_capacities_def)
  then obtain v where s: "solve ?m = (1, Some v)" and f: "feasible_point ?m v"
    using solve_optimal by blast
  from f have "v = \<lparr>x_1 = 0, x_2 = 0, x_3 = 0, x_4 = 0\<rparr>" by (rule zero_capacities_origin)
  with s show ?thesis by simp
qed

text \<open>
  C4, as stated, fails at its own example. With every capacity 0 and the positive
  coefficients of the scenario, the point with all four variables 0 satisfies every
  constraint; the solver reports success and cell 10 prints the thirteen lines of a
  solution, all quantities 0, instead of the failure message.
\<close>

theorem zero_capacities_counterexample:
  "cells_8_to_10 zero_capacities [[[10, 4], [2, 7]], [[9, 10], [7, 8]]]
     = cell_10 1 (Some \<lparr>x_1 = 0, x_2 = 0, x_3 = 0, x_4 = 0\<rparr>)
 \<and> printed_lines (cells_8_to_10 zero_capacities [[[10, 4], [2, 7]], [[9, 10], [7, 8]]]) = 13
 \<and> cells_8_to_10 zero_capacities [[[10, 4], [2, 7]], [[9, 10], [7, 8]]]
     \<noteq> Inr [Text ''No feasible solution found'']"
proof -
  have "cells_8_to_10 zero_capacities [[[10, 4], [2, 7]], [[9, 10], [7, 8]]]
     = cell_10 1 (Some \<lparr>x_1 = 0, x_2 = 0, x_3 = 0, x_4 = 0\<rparr>)"
    using cell_8_table zero_capacities_solved by (rule cells_8_to_10_solved)
  then show ?thesis by (simp add: cell_10_def printed_lines_def)
qed

text \<open>
  C4, amended. The output is exactly the failure message if and only if no point with
  non-negative integer coordinates satisfies all five constraints. A capacity below 0
  makes the model infeasible (the witness sets one to \<open>-1\<close>); capacities 0 do not.
\<close>

theorem failure_message_iff_infeasible:
  assumes "cell_8 lims constraints = Inr m"
  shows "cells_8_to_10 lims constraints = Inr [Text ''No feasible solution found'']
     \<longleftrightarrow> (\<forall>v. \<not> feasible_point m v)"
proof
  assume out: "cells_8_to_10 lims constraints = Inr [Text ''No feasible solution found'']"
  show "\<forall>v. \<not> feasible_point m v"
  proof (rule ccontr)
    assume "\<not> (\<forall>v. \<not> feasible_point m v)"
    then obtain y where "feasible_point m y" by blast
    then obtain v where "solve m = (1, Some v)" using solve_optimal by blast
    with assms have "cells_8_to_10 lims constraints = cell_10 1 (Some v)"
      by (rule cells_8_to_10_solved)
    with out show False by (simp add: cell_10_def)
  qed
next
  assume "\<forall>v. \<not> feasible_point m v"
  then have "solve m = (- 1, None)" by (rule solve_infeasible)
  with assms show "cells_8_to_10 lims constraints = Inr [Text ''No feasible solution found'']"
    by (simp add: cells_8_to_10_def bind_result_def cell_10_def)
qed

lemma negative_capacity_infeasible:
  "\<not> feasible_point
     \<lparr>c000 = 10, c001 = 4, c100 = 9, c101 = 10, c010 = 2, c011 = 7, c110 = 7, c111 = 8,
      rhs = negative_capacity\<rparr> v"
proof
  assume f: "feasible_point
     \<lparr>c000 = 10, c001 = 4, c100 = 9, c101 = 10, c010 = 2, c011 = 7, c110 = 7, c111 = 8,
      rhs = negative_capacity\<rparr> v"
  obtain a b c d where v: "v = \<lparr>x_1 = a, x_2 = b, x_3 = c, x_4 = d\<rparr>"
    by (cases v)
  from f have "0 \<le> a" and "0 \<le> b" and "a * 10 + b * 4 \<le> - 1"
    by (simp_all add: v feasible_point_def in_domain_def constraint_1_def
        negative_capacity_def notebook_limits_def)
  then show False by linarith
qed

theorem failure_message_iff_infeasible_witness:
  "cells_8_to_10 negative_capacity [[[10, 4], [2, 7]], [[9, 10], [7, 8]]]
     = Inr [Text ''No feasible solution found'']"
  using failure_message_iff_infeasible [OF cell_8_table] negative_capacity_infeasible
  by blast

section \<open>The solution of the notebook's model\<close>

lemma notebook_table_solved:
  fixes a b c d e f g h :: int
  defines "m \<equiv> \<lparr>c000 = a, c001 = b, c100 = e, c101 = f, c010 = c, c011 = d, c110 = g,
      c111 = h, rhs = notebook_limits\<rparr>"
  shows "\<exists>v. cell_8 notebook_limits [[[a, b], [c, d]], [[e, f], [g, h]]] = Inr m
     \<and> solve m = (1, Some v)
     \<and> cells_8_to_10 notebook_limits [[[a, b], [c, d]], [[e, f], [g, h]]] = cell_10 1 (Some v)
     \<and> feasible_point m v
     \<and> (\<forall>z. feasible_point m z \<longrightarrow> objective z \<le> objective v)"
proof -
  have b: "cell_8 notebook_limits [[[a, b], [c, d]], [[e, f], [g, h]]] = Inr m"
    unfolding m_def by (rule cell_8_table)
  have "rhs m = notebook_limits" by (simp add: m_def)
  then obtain v where s: "solve m = (1, Some v)" and f: "feasible_point m v"
    and o: "\<forall>z. feasible_point m z \<longrightarrow> objective z \<le> objective v"
    using notebook_model_solved by blast
  from b s have "cells_8_to_10 notebook_limits [[[a, b], [c, d]], [[e, f], [g, h]]]
      = cell_10 1 (Some v)"
    by (rule cells_8_to_10_solved)
  with b s f o show ?thesis by blast
qed

text \<open>
  C5. For every 2 x 2 x 2 table of integers, with the constants of the notebook: the
  solver reports success with a point \<open>v\<close>, the last line of the report is the profit
  \<open>10 * x_1 + 15 * x_2 + 10 * x_3 + 15 * x_4\<close> at \<open>v\<close>, and no point that satisfies
  the lower bounds and the five constraints has a higher objective value.
\<close>

theorem reported_profit_is_optimal:
  fixes a b c d e f g h :: int
  shows "\<exists>m v ls. cell_8 notebook_limits [[[a, b], [c, d]], [[e, f], [g, h]]] = Inr m
     \<and> solve m = (1, Some v)
     \<and> cells_8_to_10 notebook_limits [[[a, b], [c, d]], [[e, f], [g, h]]] = Inr ls
     \<and> last ls = Labeled ''Total profit'' (10 * x_1 v + 15 * x_2 v + 10 * x_3 v + 15 * x_4 v)
     \<and> objective v = 10 * x_1 v + 15 * x_2 v + 10 * x_3 v + 15 * x_4 v
     \<and> (\<forall>z. feasible_point m z \<longrightarrow> objective z \<le> objective v)"
proof -
  from notebook_table_solved [of a b c d e f g h] obtain m v
    where b: "cell_8 notebook_limits [[[a, b], [c, d]], [[e, f], [g, h]]] = Inr m"
      and s: "solve m = (1, Some v)"
      and r: "cells_8_to_10 notebook_limits [[[a, b], [c, d]], [[e, f], [g, h]]]
          = cell_10 1 (Some v)"
      and o: "\<forall>z. feasible_point m z \<longrightarrow> objective z \<le> objective v"
    by blast
  obtain ls where l: "cell_10 1 (Some v) = Inr ls"
    and p: "last ls = Labeled ''Total profit'' (10 * x_1 v + 15 * x_2 v + 10 * x_3 v + 15 * x_4 v)"
    by (simp add: cell_10_def objective_def)
  have e: "objective v = 10 * x_1 v + 15 * x_2 v + 10 * x_3 v + 15 * x_4 v"
    by (simp add: objective_def)
  from b s r l p e o show ?thesis by auto
qed

theorem reported_profit_is_optimal_witness:
  "feasible_point scenario_model \<lparr>x_1 = 0, x_2 = 6, x_3 = 1, x_4 = 8\<rparr>
 \<and> (\<exists>v. solve scenario_model = (1, Some v) \<and> 220 \<le> objective v)"
proof -
  from reported_profit_is_optimal [of 10 4 2 7 9 10 7 8] obtain m v
    where b: "cell_8 notebook_limits [[[10, 4], [2, 7]], [[9, 10], [7, 8]]] = Inr m"
      and s: "solve m = (1, Some v)"
      and o: "\<forall>z. feasible_point m z \<longrightarrow> objective z \<le> objective v"
    by blast
  from b have m: "m = scenario_model" by (simp add: cell_8_table scenario_model_def)
  have f: "feasible_point scenario_model \<lparr>x_1 = 0, x_2 = 6, x_3 = 1, x_4 = 8\<rparr>"
    using scenario_point_feasible by (simp add: scenario_point_def)
  with o have "objective \<lparr>x_1 = 0, x_2 = 6, x_3 = 1, x_4 = 8\<rparr> \<le> objective v"
    unfolding m by blast
  then have "220 \<le> objective v" by (simp add: objective_def)
  with f s show ?thesis unfolding m by blast
qed

text \<open>
  C6. For every 2 x 2 x 2 table of integers the solved values satisfy the four capacity
  constraints, with the right-hand sides 80, 60, 60 and 75, and the cloth constraint
  \<open>4 * (x_1 + x_2 + x_3 + x_4) \<le> 120\<close>.
\<close>

theorem solution_satisfies_constraints:
  fixes a b c d e f g h :: int
  shows "\<exists>m v. cell_8 notebook_limits [[[a, b], [c, d]], [[e, f], [g, h]]] = Inr m
     \<and> solve m = (1, Some v)
     \<and> x_1 v * a + x_2 v * b \<le> 80
     \<and> x_1 v * e + x_2 v * f \<le> 60
     \<and> x_3 v * c + x_4 v * d \<le> 60
     \<and> x_3 v * g + x_4 v * h \<le> 75
     \<and> 4 * (x_1 v + x_2 v + x_3 v + x_4 v) \<le> 120"
proof -
  let ?m = "\<lparr>c000 = a, c001 = b, c100 = e, c101 = f, c010 = c, c011 = d, c110 = g,
      c111 = h, rhs = notebook_limits\<rparr>"
  from notebook_table_solved [of a b c d e f g h] obtain v
    where b: "cell_8 notebook_limits [[[a, b], [c, d]], [[e, f], [g, h]]] = Inr ?m"
      and s: "solve ?m = (1, Some v)" and f: "feasible_point ?m v"
    by blast
  from f have "x_1 v * a + x_2 v * b \<le> 80" and "x_1 v * e + x_2 v * f \<le> 60"
    and "x_3 v * c + x_4 v * d \<le> 60" and "x_3 v * g + x_4 v * h \<le> 75"
    and "4 * (x_1 v + x_2 v + x_3 v + x_4 v) \<le> 120"
    by (simp_all add: feasible_point_def constraint_1_def constraint_2_def constraint_3_def
        constraint_4_def constraint_5_def notebook_limits_def)
  with b s show ?thesis by blast
qed

text \<open>
  C7. For every 2 x 2 x 2 table of integers the solved value of each of the four
  variables is an integer (by its type) that is at least 0.
\<close>

theorem solution_is_non_negative:
  fixes a b c d e f g h :: int
  shows "\<exists>m v. cell_8 notebook_limits [[[a, b], [c, d]], [[e, f], [g, h]]] = Inr m
     \<and> solve m = (1, Some v)
     \<and> 0 \<le> x_1 v \<and> 0 \<le> x_2 v \<and> 0 \<le> x_3 v \<and> 0 \<le> x_4 v"
proof -
  let ?m = "\<lparr>c000 = a, c001 = b, c100 = e, c101 = f, c010 = c, c011 = d, c110 = g,
      c111 = h, rhs = notebook_limits\<rparr>"
  from notebook_table_solved [of a b c d e f g h] obtain v
    where b: "cell_8 notebook_limits [[[a, b], [c, d]], [[e, f], [g, h]]] = Inr ?m"
      and s: "solve ?m = (1, Some v)" and f: "feasible_point ?m v"
    by blast
  from f have "0 \<le> x_1 v" and "0 \<le> x_2 v" and "0 \<le> x_3 v" and "0 \<le> x_4 v"
    by (simp_all add: feasible_point_def in_domain_def)
  with b s show ?thesis by blast
qed

section \<open>The whole notebook\<close>

text \<open>
  Whatever the generator draws, the notebook raises no exception and prints the thirteen
  lines of a solution: the point with all variables 0 satisfies the constraints of every
  table.
\<close>

lemma notebook_prints_a_solution:
  "\<exists>v. notebook seeding nxt seed g = cell_10 1 (Some v)
     \<and> printed_lines (notebook seeding nxt seed g) = 13"
proof -
  have "\<exists>a b c d e f g' h.
      cells_2_to_4 seeding nxt seed g = Inr [[[a, b], [c, d]], [[e, f], [g', h]]]"
    by (intro exI, rule cells_2_to_4_samples, rule np_random_uniform_8)
  then obtain a b c d e f g' h
    where t: "cells_2_to_4 seeding nxt seed g = Inr [[[a, b], [c, d]], [[e, f], [g', h]]]"
    by blast
  from notebook_table_solved [of a b c d e f g' h] obtain v
    where "cells_8_to_10 notebook_limits [[[a, b], [c, d]], [[e, f], [g', h]]]
        = cell_10 1 (Some v)"
    by blast
  with t have "notebook seeding nxt seed g = cell_10 1 (Some v)"
    by (simp add: notebook_def bind_result_def)
  then show ?thesis by (auto simp: cell_10_success_lines)
qed

text \<open>
  For the table of the recorded run the model prints, byte for byte, the output that is
  stored in the notebook.
\<close>

lemma scenario_report:
  "cells_8_to_10 notebook_limits scenario_constraints = cell_10 1 (Some scenario_point)"
  unfolding scenario_constraints_def
  using cell_8_table scenario_solved [unfolded scenario_model_def]
  by (rule cells_8_to_10_solved)

lemma scenario_report_rendered:
  "map render (projr (cell_10 1 (Some scenario_point))) =
     [''Production Quantities:'',
      ''Jeans in '' @ besiktas @ '': 6.0'',
      ''Jeans in '' @ davutpasa @ '': 8.0'',
      ''T-shirts in '' @ besiktas @ '': 0.0'',
      ''T-shirts in '' @ davutpasa @ '': 1.0'',
      ''Total amount used:'',
      ''Cutting in '' @ besiktas @ '': 6.0'',
      ''Cutting in '' @ davutpasa @ '': 9.0'',
      ''Sewing in '' @ besiktas @ '': 6.0'',
      ''Sewing in '' @ davutpasa @ '': 9.0'',
      ''Cloths in '' @ besiktas @ '': 24.0'',
      ''Cloths in '' @ davutpasa @ '': 36.0'',
      ''Total profit: 220.0'']"
  by code_simp

end
